theory Spec2Isabelle
  imports Complex_Main "HOL-Library.AList"
begin

section \<open>Datasets, column expressions and the table store\<close>

text \<open>
  The program (\<^verbatim>\<open>data_storage.py\<close>, class \<^verbatim>\<open>FinanceLakeStorage\<close>) is glue code over a
  dataframe engine and a versioned table format. The embedding keeps the program's own
  decisions (column-existence tests, the lists it builds, its \<^verbatim>\<open>try\<close> blocks) as
  they are written and gives the engine a small executable semantics:
  a dataset is a list of column names and a list of rows, a row an association list from
  column name to cell. Column names are compared as Python compares them
  (\<^verbatim>\<open>name in df.columns\<close>, exact strings). Doubles are modelled as reals.
  What the engine decides by its own conversion rules (casting to a date, date parts,
  comparing cells of different types) is a field of the record \<open>engine\<close>.
\<close>

datatype cell = Null | Num real | Str string | DateV int | BoolV bool

type_synonym row = "(string \<times> cell) list"

record dataframe =
  columns :: "string list"
  rows :: "row list"

datatype error = AnalysisException string | ExecutionError string

fun error_msg :: "error \<Rightarrow> string" where
  "error_msg (AnalysisException m) = m"
| "error_msg (ExecutionError m) = m"

record engine =
  today :: int
  clock :: nat
  cast_date :: "cell \<Rightarrow> cell"
  year_of :: "cell \<Rightarrow> cell"
  month_of :: "cell \<Rightarrow> cell"
  dayofmonth_of :: "cell \<Rightarrow> cell"
  coerce_gt :: "cell \<Rightarrow> cell \<Rightarrow> cell"
  coerce_eq :: "cell \<Rightarrow> cell \<Rightarrow> cell"
  num_cast :: "cell \<Rightarrow> real option"
  parse_ts :: "string \<Rightarrow> nat option"
  zorder_failure :: "string \<Rightarrow> string list \<Rightarrow> error option"

text \<open>Column expressions: the ones the program builds with \<^verbatim>\<open>col\<close>, \<^verbatim>\<open>lit\<close>,
  \<^verbatim>\<open>current_date\<close>, \<^verbatim>\<open>cast("date")\<close>, \<^verbatim>\<open>year\<close>, \<^verbatim>\<open>month\<close>, \<^verbatim>\<open>dayofmonth\<close>,
  \<^verbatim>\<open>isNotNull\<close>, \<^verbatim>\<open>>\<close> and \<^verbatim>\<open>==\<close>.\<close>

datatype expr =
    Col string
  | Lit cell
  | CurrentDate
  | CastDate expr
  | Year expr
  | Month expr
  | DayOfMonth expr
  | IsNotNull expr
  | Gt expr expr
  | Eq expr expr

fun refs :: "expr \<Rightarrow> string list" where
  "refs (Col c) = [c]"
| "refs (Lit v) = []"
| "refs CurrentDate = []"
| "refs (CastDate e) = refs e"
| "refs (Year e) = refs e"
| "refs (Month e) = refs e"
| "refs (DayOfMonth e) = refs e"
| "refs (IsNotNull e) = refs e"
| "refs (Gt a b) = refs a @ refs b"
| "refs (Eq a b) = refs a @ refs b"

definition col_val :: "row \<Rightarrow> string \<Rightarrow> cell" where
  "col_val r c = (case map_of r c of Some v \<Rightarrow> v | None \<Rightarrow> Null)"

text \<open>Comparisons follow SQL: a null operand gives null; cells of one type are compared
  directly; anything else is the engine's implicit conversion.\<close>

fun eval_gt :: "engine \<Rightarrow> cell \<Rightarrow> cell \<Rightarrow> cell" where
  "eval_gt E Null b = Null"
| "eval_gt E a Null = Null"
| "eval_gt E (Num x) (Num y) = BoolV (y < x)"
| "eval_gt E a b = coerce_gt E a b"

fun eval_eq :: "engine \<Rightarrow> cell \<Rightarrow> cell \<Rightarrow> cell" where
  "eval_eq E Null b = Null"
| "eval_eq E a Null = Null"
| "eval_eq E (Num x) (Num y) = BoolV (x = y)"
| "eval_eq E (Str s) (Str t) = BoolV (s = t)"
| "eval_eq E (DateV d) (DateV d') = BoolV (d = d')"
| "eval_eq E (BoolV p) (BoolV q) = BoolV (p = q)"
| "eval_eq E a b = coerce_eq E a b"

fun eval :: "engine \<Rightarrow> row \<Rightarrow> expr \<Rightarrow> cell" where
  "eval E r (Col c) = col_val r c"
| "eval E r (Lit v) = v"
| "eval E r CurrentDate = DateV (today E)"
| "eval E r (CastDate e) = cast_date E (eval E r e)"
| "eval E r (Year e) = year_of E (eval E r e)"
| "eval E r (Month e) = month_of E (eval E r e)"
| "eval E r (DayOfMonth e) = dayofmonth_of E (eval E r e)"
| "eval E r (IsNotNull e) = BoolV (eval E r e \<noteq> Null)"
| "eval E r (Gt a b) = eval_gt E (eval E r a) (eval E r b)"
| "eval E r (Eq a b) = eval_eq E (eval E r a) (eval E r b)"

text \<open>An expression naming a column the dataset does not have is refused by the engine
  when the operation is built (an \<^verbatim>\<open>AnalysisException\<close>); the payload is the first
  such column.\<close>

definition unresolved :: "dataframe \<Rightarrow> string list \<Rightarrow> string list" where
  "unresolved df cs = filter (\<lambda>c. c \<notin> set (columns df)) cs"

definition withColumn :: "engine \<Rightarrow> string \<Rightarrow> expr \<Rightarrow> dataframe \<Rightarrow> error + dataframe" where
  "withColumn E name e df =
     (case unresolved df (refs e) of
        c # _ \<Rightarrow> Inl (AnalysisException c)
      | [] \<Rightarrow> Inr \<lparr>columns = (if name \<in> set (columns df) then columns df else columns df @ [name]),
                  rows = map (\<lambda>r. AList.update name (eval E r e) r) (rows df)\<rparr>)"

definition df_filter :: "engine \<Rightarrow> expr \<Rightarrow> dataframe \<Rightarrow> error + dataframe" where
  "df_filter E e df =
     (case unresolved df (refs e) of
        c # _ \<Rightarrow> Inl (AnalysisException c)
      | [] \<Rightarrow> Inr \<lparr>columns = columns df,
                  rows = filter (\<lambda>r. eval E r e = BoolV True) (rows df)\<rparr>)"

definition withColumnRenamed :: "string \<Rightarrow> string \<Rightarrow> dataframe \<Rightarrow> dataframe" where
  "withColumnRenamed old new df =
     \<lparr>columns = map (\<lambda>c. if c = old then new else c) (columns df),
      rows = map (map (\<lambda>(c, v). (if c = old then new else c, v))) (rows df)\<rparr>"

subsection \<open>The versioned table store\<close>

text \<open>A table location holds the list of its committed versions, oldest first (version
  \<open>i\<close> is element \<open>i\<close>). The world is the store, what the program has printed, and the
  clustering (Z-order) runs it has asked for.\<close>

record snapshot =
  commit_ts :: nat
  partitioned_by :: "string list"
  content :: dataframe

record world =
  tables :: "string \<rightharpoonup> snapshot list"
  stdout :: "string list"
  zorder_calls :: "(string \<times> string list) list"

definition history :: "world \<Rightarrow> string \<Rightarrow> snapshot list" where
  "history w path = (case tables w path of None \<Rightarrow> [] | Some h \<Rightarrow> h)"

definition print :: "string \<Rightarrow> world \<Rightarrow> world" where
  "print s w = w\<lparr>stdout := stdout w @ [s]\<rparr>"

text \<open>\<^verbatim>\<open>spark.read.format("delta").load(path)\<close>: the latest version, an error when the
  location holds no table.\<close>

definition load :: "world \<Rightarrow> string \<Rightarrow> error + dataframe" where
  "load w path =
     (case history w path of
        [] \<Rightarrow> Inl (AnalysisException (path @ '' is not a Delta table''))
      | h # hs \<Rightarrow> Inr (content (last (h # hs))))"

text \<open>\<^verbatim>\<open>df.write.format("delta").mode("overwrite")\<close>, \<^verbatim>\<open>partitionBy\<close> and \<^verbatim>\<open>save\<close>: the
  write commits a new version that replaces the table's data; the storage refuses a
  partition column the dataset does not have.\<close>

record writer =
  w_data :: dataframe
  w_partition :: "string list"

definition df_write :: "dataframe \<Rightarrow> writer" where
  "df_write df = \<lparr>w_data = df, w_partition = []\<rparr>"

definition partitionBy :: "string list \<Rightarrow> writer \<Rightarrow> writer" where
  "partitionBy cs wr = wr\<lparr>w_partition := cs\<rparr>"

definition save :: "engine \<Rightarrow> writer \<Rightarrow> string \<Rightarrow> world \<Rightarrow> error + world" where
  "save E wr path w =
     (case unresolved (w_data wr) (w_partition wr) of
        c # _ \<Rightarrow> Inl (AnalysisException c)
      | [] \<Rightarrow> Inr (w\<lparr>tables := (tables w)(path \<mapsto> history w path @
                    [\<lparr>commit_ts = clock E, partitioned_by = w_partition wr,
                      content = w_data wr\<rparr>])\<rparr>))"

section \<open>write_bronze_layer\<close>

definition bronze_path :: "string \<Rightarrow> string \<Rightarrow> string" where
  "bronze_path base_path table_name = base_path @ ''/bronze/'' @ table_name"

text \<open>The two derivation blocks: both test the columns of the input \<open>df\<close> and extend
  \<open>df_transformed\<close>.\<close>

definition add_date :: "engine \<Rightarrow> dataframe \<Rightarrow> dataframe \<Rightarrow> error + dataframe" where
  "add_date E df df_transformed =
     (if ''date'' \<notin> set (columns df) then
        (if ''transaction_date'' \<in> set (columns df)
         then withColumn E ''date'' (CastDate (Col ''transaction_date'')) df_transformed
         else withColumn E ''date'' CurrentDate df_transformed)
      else Inr df_transformed)"

definition add_region :: "engine \<Rightarrow> dataframe \<Rightarrow> dataframe \<Rightarrow> error + dataframe" where
  "add_region E df df_transformed =
     (if ''region'' \<notin> set (columns df) then
        (if ''country'' \<in> set (columns df)
         then withColumn E ''region'' (Col ''country'') df_transformed
         else withColumn E ''region'' (Lit (Str ''UNKNOWN'')) df_transformed)
      else Inr df_transformed)"

definition bronze_transformed :: "engine \<Rightarrow> dataframe \<Rightarrow> error + dataframe" where
  "bronze_transformed E df =
     (case add_date E df df of
        Inl e \<Rightarrow> Inl e
      | Inr df1 \<Rightarrow> add_region E df df1)"





section \<open>read_bronze_layer\<close>

text \<open>\<^verbatim>\<open>spark.createDataFrame([], "id: string")\<close>\<close>

definition empty_id_df :: dataframe where
  "empty_id_df = \<lparr>columns = [''id''], rows = []\<rparr>"

text \<open>The loop over \<^verbatim>\<open>filters.items()\<close>; a dictionary is the list of its items in
  insertion order.\<close>

fun bronze_filters :: "engine \<Rightarrow> (string \<times> string) list \<Rightarrow> dataframe \<Rightarrow> error + dataframe" where
  "bronze_filters E [] df = Inr df"
| "bronze_filters E ((col_name, v) # fs) df =
     (if col_name \<in> set (columns df) then
        (case df_filter E (Eq (Col col_name) (Lit (Str v))) df of
           Inl e \<Rightarrow> Inl e
         | Inr df' \<Rightarrow> bronze_filters E fs df')
      else bronze_filters E fs df)"

definition read_bronze_layer ::
  "engine \<Rightarrow> string \<Rightarrow> string \<Rightarrow> (string \<times> string) list option \<Rightarrow> world
     \<Rightarrow> error + (dataframe \<times> world)" where
  "read_bronze_layer E base_path table_name filters w =
     (let path = bronze_path base_path table_name in
      case load w path of
        Inl e \<Rightarrow>
          Inr (empty_id_df,
               print (''Warning: Could not read table '' @ table_name @ '': '' @ error_msg e) w)
      | Inr df \<Rightarrow>
          (case filters of
             None \<Rightarrow> Inr (df, w)
           | Some fs \<Rightarrow>
               (if fs \<noteq> [] then
                  (case bronze_filters E fs df of
                     Inl e \<Rightarrow> Inl e
                   | Inr df' \<Rightarrow> Inr (df', w))
                else Inr (df, w))))"

section \<open>transform_to_silver\<close>

definition silver_path :: "string \<Rightarrow> string \<Rightarrow> string" where
  "silver_path base_path table_name = base_path @ ''/silver/'' @ table_name"

definition silver_dates :: "engine \<Rightarrow> dataframe \<Rightarrow> dataframe \<Rightarrow> error + dataframe" where
  "silver_dates E bronze_df silver_df =
     (if ''date'' \<in> set (columns bronze_df) then
        (case withColumn E ''year'' (Year (Col ''date'')) silver_df of
           Inl e \<Rightarrow> Inl e
         | Inr d1 \<Rightarrow>
             (case withColumn E ''month'' (Month (Col ''date'')) d1 of
                Inl e \<Rightarrow> Inl e
              | Inr d2 \<Rightarrow> withColumn E ''day'' (DayOfMonth (Col ''date'')) d2))
      else Inr silver_df)"

definition silver_amounts :: "engine \<Rightarrow> dataframe \<Rightarrow> dataframe \<Rightarrow> error + dataframe" where
  "silver_amounts E bronze_df silver_df =
     (if ''amount'' \<in> set (columns bronze_df) then
        (case df_filter E (IsNotNull (Col ''amount'')) silver_df of
           Inl e \<Rightarrow> Inl e
         | Inr d1 \<Rightarrow> df_filter E (Gt (Col ''amount'') (Lit (Num 0))) d1)
      else Inr silver_df)"

definition silver_transformed :: "engine \<Rightarrow> dataframe \<Rightarrow> error + dataframe" where
  "silver_transformed E bronze_df =
     (case silver_dates E bronze_df bronze_df of
        Inl e \<Rightarrow> Inl e
      | Inr d \<Rightarrow> silver_amounts E bronze_df d)"

definition silver_partition_cols :: "dataframe \<Rightarrow> string list" where
  "silver_partition_cols silver_df =
     (if ''year'' \<in> set (columns silver_df) then [''year'', ''month''] else []) @
     (if ''region'' \<in> set (columns silver_df) then [''region''] else [])"

definition silver_writer :: "dataframe \<Rightarrow> writer" where
  "silver_writer silver_df =
     (let partition_cols = silver_partition_cols silver_df;
          wr = df_write silver_df
      in if partition_cols \<noteq> [] then partitionBy partition_cols wr else wr)"

definition zorder_cols :: "dataframe \<Rightarrow> string list" where
  "zorder_cols silver_df =
     (if ''customer_id'' \<in> set (columns silver_df) then [''customer_id''] else []) @
     (if ''transaction_type'' \<in> set (columns silver_df) then [''transaction_type''] else [])"

text \<open>\<^verbatim>\<open>DeltaTable.forPath\<close> fails on a location that holds no table.
  \<^verbatim>\<open>optimize().executeZOrderBy\<close> reorganises the table's files: the run is recorded, the
  table's data stays as it is (the file layout is not modelled), and whether the run
  fails is the engine's.\<close>

definition forPath :: "world \<Rightarrow> string \<Rightarrow> error + string" where
  "forPath w path =
     (if history w path = [] then Inl (AnalysisException (path @ '' is not a Delta table''))
      else Inr path)"

definition executeZOrderBy :: "engine \<Rightarrow> string \<Rightarrow> string list \<Rightarrow> world \<Rightarrow> error option \<times> world" where
  "executeZOrderBy E delta_table cs w =
     (zorder_failure E delta_table cs, w\<lparr>zorder_calls := zorder_calls w @ [(delta_table, cs)]\<rparr>)"

text \<open>The \<^verbatim>\<open>try\<close> block after the write: every exception raised inside it is caught
  and printed as a warning.\<close>

definition silver_optimize :: "engine \<Rightarrow> dataframe \<Rightarrow> string \<Rightarrow> world \<Rightarrow> world" where
  "silver_optimize E silver_df path w =
     (case forPath w path of
        Inl e \<Rightarrow> print (''Warning: Z-ordering optimization failed: '' @ error_msg e) w
      | Inr delta_table \<Rightarrow>
          (let zs = zorder_cols silver_df in
           if zs \<noteq> [] then
             (case executeZOrderBy E delta_table zs w of
                (Some e, w') \<Rightarrow> print (''Warning: Z-ordering optimization failed: '' @ error_msg e) w'
              | (None, w') \<Rightarrow> w')
           else w))"

definition transform_to_silver ::
  "engine \<Rightarrow> string \<Rightarrow> string \<Rightarrow> string \<Rightarrow> world \<Rightarrow> error + world" where
  "transform_to_silver E base_path bronze_table silver_table w =
     (case read_bronze_layer E base_path bronze_table None w of
        Inl e \<Rightarrow> Inl e
      | Inr (bronze_df, w1) \<Rightarrow>
          (case silver_transformed E bronze_df of
             Inl e \<Rightarrow> Inl e
           | Inr silver_df \<Rightarrow>
               (let path = silver_path base_path silver_table in
                case save E (silver_writer silver_df) path w1 of
                  Inl e \<Rightarrow> Inl e
                | Inr w2 \<Rightarrow>
                    Inr (print (''Data transformed to silver layer: '' @ path)
                           (silver_optimize E silver_df path w2)))))"

section \<open>create_gold_aggregations\<close>

definition gold_path :: "string \<Rightarrow> string \<Rightarrow> string" where
  "gold_path base_path table_name = base_path @ ''/gold/'' @ table_name"

definition group_cols :: "dataframe \<Rightarrow> string list" where
  "group_cols silver_df =
     (let g = (if ''date'' \<in> set (columns silver_df) then [''date''] else []) @
              (if ''region'' \<in> set (columns silver_df) then [''region''] else []) @
              (if ''transaction_type'' \<in> set (columns silver_df) then [''transaction_type''] else [])
      in if g = [] then [''date''] else g)"

text \<open>The aggregation dictionary \<^verbatim>\<open>agg_expr\<close>, as the list of its items in insertion
  order; the function names \<^verbatim>\<open>"sum"\<close> and \<^verbatim>\<open>"count"\<close> are the two constructors.\<close>

datatype aggfun = Sum | Count

fun aggfun_name :: "aggfun \<Rightarrow> string" where
  "aggfun_name Sum = ''sum''"
| "aggfun_name Count = ''count''"

definition agg_expr :: "dataframe \<Rightarrow> (string \<times> aggfun) list" where
  "agg_expr silver_df =
     (if ''amount'' \<in> set (columns silver_df) then [(''amount'', Sum)] else []) @
     (if ''customer_id'' \<in> set (columns silver_df) then [(''customer_id'', Count)] else [])"

subsection \<open>Grouping in the engine\<close>

text \<open>One output row per distinct key. The engine leaves the order of the groups open;
  the model lists them in the order \<open>remdups\<close> gives. \<open>sum\<close> skips nulls and is null
  when nothing is left; \<open>count\<close> of a column counts its non-null cells; the plain
  \<open>count()\<close> counts rows.\<close>

definition group_key :: "string list \<Rightarrow> row \<Rightarrow> cell list" where
  "group_key gcols r = map (col_val r) gcols"

definition group_keys :: "string list \<Rightarrow> dataframe \<Rightarrow> cell list list" where
  "group_keys gcols df = remdups (map (group_key gcols) (rows df))"

definition group_members :: "string list \<Rightarrow> dataframe \<Rightarrow> cell list \<Rightarrow> row list" where
  "group_members gcols df k = filter (\<lambda>r. group_key gcols r = k) (rows df)"

definition num_val :: "engine \<Rightarrow> cell \<Rightarrow> real option" where
  "num_val E c = (case c of Null \<Rightarrow> None | Num x \<Rightarrow> Some x | _ \<Rightarrow> num_cast E c)"

fun agg_cell :: "engine \<Rightarrow> aggfun \<Rightarrow> cell list \<Rightarrow> cell" where
  "agg_cell E Sum cs =
     (let xs = List.map_filter (num_val E) cs in if xs = [] then Null else Num (sum_list xs))"
| "agg_cell E Count cs = Num (of_nat (length (filter (\<lambda>c. c \<noteq> Null) cs)))"

definition agg_name :: "string \<times> aggfun \<Rightarrow> string" where
  "agg_name a = aggfun_name (snd a) @ ''('' @ fst a @ '')''"

definition groupBy_agg ::
  "engine \<Rightarrow> string list \<Rightarrow> (string \<times> aggfun) list \<Rightarrow> dataframe \<Rightarrow> error + dataframe" where
  "groupBy_agg E gcols aggs df =
     (case unresolved df (gcols @ map fst aggs) of
        c # _ \<Rightarrow> Inl (AnalysisException c)
      | [] \<Rightarrow>
          Inr \<lparr>columns = gcols @ map agg_name aggs,
               rows = map (\<lambda>k. zip gcols k @
                            map (\<lambda>a. (agg_name a,
                                      agg_cell E (snd a)
                                        (map (\<lambda>r. col_val r (fst a)) (group_members gcols df k))))
                              aggs)
                        (group_keys gcols df)\<rparr>)"

definition groupBy_count :: "string list \<Rightarrow> dataframe \<Rightarrow> error + dataframe" where
  "groupBy_count gcols df =
     (case unresolved df gcols of
        c # _ \<Rightarrow> Inl (AnalysisException c)
      | [] \<Rightarrow>
          Inr \<lparr>columns = gcols @ [''count''],
               rows = map (\<lambda>k. zip gcols k @
                            [(''count'', Num (of_nat (length (group_members gcols df k))))])
                        (group_keys gcols df)\<rparr>)"

subsection \<open>The method\<close>

definition gold_renamed :: "dataframe \<Rightarrow> dataframe" where
  "gold_renamed gold_df =
     (let g1 = (if ''sum(amount)'' \<in> set (columns gold_df)
                then withColumnRenamed ''sum(amount)'' ''total_amount'' gold_df else gold_df)
      in if ''count(customer_id)'' \<in> set (columns g1)
         then withColumnRenamed ''count(customer_id)'' ''transaction_count'' g1 else g1)"

definition gold_aggregated :: "engine \<Rightarrow> dataframe \<Rightarrow> error + dataframe" where
  "gold_aggregated E silver_df =
     (if agg_expr silver_df = [] then groupBy_count (group_cols silver_df) silver_df
      else (case groupBy_agg E (group_cols silver_df) (agg_expr silver_df) silver_df of
              Inl e \<Rightarrow> Inl e
            | Inr gold_df \<Rightarrow> Inr (gold_renamed gold_df)))"

definition gold_partition_cols :: "dataframe \<Rightarrow> string list" where
  "gold_partition_cols gold_df =
     (if ''date'' \<in> set (columns gold_df) then [''date''] else []) @
     (if ''region'' \<in> set (columns gold_df) then [''region''] else [])"

definition gold_writer :: "dataframe \<Rightarrow> writer" where
  "gold_writer gold_df =
     (let partition_cols = gold_partition_cols gold_df;
          wr = df_write gold_df
      in if partition_cols \<noteq> [] then partitionBy partition_cols wr else wr)"

definition create_gold_aggregations ::
  "engine \<Rightarrow> string \<Rightarrow> string \<Rightarrow> string \<Rightarrow> world \<Rightarrow> error + world" where
  "create_gold_aggregations E base_path silver_table gold_table w =
     (case load w (silver_path base_path silver_table) of
        Inl e \<Rightarrow> Inl e
      | Inr silver_df \<Rightarrow>
          (case gold_aggregated E silver_df of
             Inl e \<Rightarrow> Inl e
           | Inr gold_df \<Rightarrow>
               (let gpath = gold_path base_path gold_table in
                case save E (gold_writer gold_df) gpath w of
                  Inl e \<Rightarrow> Inl e
                | Inr w' \<Rightarrow> Inr (print (''Gold layer aggregations created: '' @ gpath) w'))))"

section \<open>query_with_optimization\<close>



section \<open>time_travel_query\<close>

text \<open>Python's \<^verbatim>\<open>str\<close> on an integer, and the storage's reading of a version number.\<close>

definition digit_char :: "nat \<Rightarrow> char" where
  "digit_char d = char_of (48 + d)"

fun str_nat :: "nat \<Rightarrow> string" where
  "str_nat n = (if n < 10 then [digit_char n] else str_nat (n div 10) @ [digit_char (n mod 10)])"

definition str_int :: "int \<Rightarrow> string" where
  "str_int i = (if i < 0 then CHR ''-'' # str_nat (nat (- i)) else str_nat (nat i))"

definition digit_val :: "char \<Rightarrow> nat option" where
  "digit_val c = (let k = (of_char c :: nat) in if 48 \<le> k \<and> k \<le> 57 then Some (k - 48) else None)"

fun parse_nat_acc :: "nat \<Rightarrow> string \<Rightarrow> nat option" where
  "parse_nat_acc a [] = Some a"
| "parse_nat_acc a (c # cs) =
     (case digit_val c of None \<Rightarrow> None | Some d \<Rightarrow> parse_nat_acc (10 * a + d) cs)"

definition parse_nat :: "string \<Rightarrow> nat option" where
  "parse_nat s = (if s = [] then None else parse_nat_acc 0 s)"

definition parse_int :: "string \<Rightarrow> int option" where
  "parse_int s =
     (case s of
        [] \<Rightarrow> None
      | c # cs \<Rightarrow> (if c = CHR ''-'' then map_option (\<lambda>n. - int n) (parse_nat cs)
                   else map_option int (parse_nat s)))"

text \<open>Reads of the table format: by version number, by timestamp (the last version
  committed at or before it), and with the reader options of
  \<^verbatim>\<open>spark.read.format("delta").options(**options).load(path)\<close>.\<close>

definition read_version :: "world \<Rightarrow> string \<Rightarrow> int \<Rightarrow> error + dataframe" where
  "read_version w path v =
     (if history w path = [] then Inl (AnalysisException (path @ '' is not a Delta table''))
      else if 0 \<le> v \<and> nat v < length (history w path) then Inr (content (history w path ! nat v))
      else Inl (AnalysisException (''Cannot time travel Delta table to version '' @ str_int v)))"

definition read_timestamp :: "engine \<Rightarrow> world \<Rightarrow> string \<Rightarrow> string \<Rightarrow> error + dataframe" where
  "read_timestamp E w path ts =
     (if history w path = [] then Inl (AnalysisException (path @ '' is not a Delta table''))
      else (case parse_ts E ts of
              None \<Rightarrow> Inl (AnalysisException (''Invalid timestamp '' @ ts))
            | Some t \<Rightarrow>
                (case filter (\<lambda>s. commit_ts s \<le> t) (history w path) of
                   [] \<Rightarrow> Inl (AnalysisException (''No version at or before '' @ ts))
                 | s # ss \<Rightarrow> Inr (content (last (s # ss))))))"

definition load_with_options ::
  "engine \<Rightarrow> (string \<times> string) list \<Rightarrow> world \<Rightarrow> string \<Rightarrow> error + dataframe" where
  "load_with_options E options w path =
     (case (map_of options ''versionAsOf'', map_of options ''timestampAsOf'') of
        (Some v, Some ts) \<Rightarrow> Inl (AnalysisException ''Cannot specify both version and timestamp'')
      | (Some v, None) \<Rightarrow>
          (case parse_int v of
             None \<Rightarrow> Inl (AnalysisException (''Invalid version '' @ v))
           | Some n \<Rightarrow> read_version w path n)
      | (None, Some ts) \<Rightarrow> read_timestamp E w path ts
      | (None, None) \<Rightarrow> load w path)"

definition time_travel_options :: "int option \<Rightarrow> string option \<Rightarrow> (string \<times> string) list" where
  "time_travel_options version timestamp =
     (case version of
        Some v \<Rightarrow> [(''versionAsOf'', str_int v)]
      | None \<Rightarrow> (case timestamp of Some ts \<Rightarrow> [(''timestampAsOf'', ts)] | None \<Rightarrow> []))"

definition time_travel_query ::
  "engine \<Rightarrow> string \<Rightarrow> int option \<Rightarrow> string option \<Rightarrow> world \<Rightarrow> error + dataframe" where
  "time_travel_query E table_path version timestamp w =
     load_with_options E (time_travel_options version timestamp) w table_path"

section \<open>Example data\<close>

text \<open>An engine for the examples: it knows the two dates of the sample rows, reads no
  number out of a non-numeric cell, and its clustering run always fails.\<close>

definition stub_engine :: engine where
  "stub_engine =
     \<lparr>today = 19800, clock = 7,
      cast_date = (\<lambda>c. case c of
                          DateV d \<Rightarrow> DateV d
                        | Str s \<Rightarrow> (if s = ''2024-01-01'' then DateV 19723
                                    else if s = ''2024-01-02'' then DateV 19724 else Null)
                        | _ \<Rightarrow> Null),
      year_of = (\<lambda>c. case c of DateV d \<Rightarrow> (if 19723 \<le> d \<and> d < 20089 then Num 2024 else Null) | _ \<Rightarrow> Null),
      month_of = (\<lambda>c. case c of DateV d \<Rightarrow> (if 19723 \<le> d \<and> d < 19754 then Num 1 else Null) | _ \<Rightarrow> Null),
      dayofmonth_of = (\<lambda>c. case c of DateV d \<Rightarrow> (if 19723 \<le> d \<and> d < 19754 then Num (of_int (d - 19722)) else Null) | _ \<Rightarrow> Null),
      coerce_gt = (\<lambda>a b. Null),
      coerce_eq = (\<lambda>a b. Null),
      num_cast = (\<lambda>c. None),
      parse_ts = (\<lambda>s. if s = ''2024-01-01 00:00:00'' then Some 5 else None),
      zorder_failure = (\<lambda>p cs. Some (ExecutionError ''optimize is not available''))\<rparr>"

definition empty_world :: world where
  "empty_world = \<lparr>tables = Map.empty, stdout = [], zorder_calls = []\<rparr>"

text \<open>The three transactions of \<^verbatim>\<open>main\<close>, and two more rows with a null and a negative
  amount.\<close>

definition txn :: "cell \<Rightarrow> string \<Rightarrow> string \<Rightarrow> string \<Rightarrow> string \<Rightarrow> string \<Rightarrow> row" where
  "txn amount country customer transaction_date transaction_id transaction_type =
     [(''amount'', amount), (''country'', Str country), (''customer_id'', Str customer),
      (''transaction_date'', Str transaction_date), (''transaction_id'', Str transaction_id),
      (''transaction_type'', Str transaction_type)]"

definition sample_columns :: "string list" where
  "sample_columns = [''amount'', ''country'', ''customer_id'', ''transaction_date'',
                     ''transaction_id'', ''transaction_type'']"

definition sample_df :: dataframe where
  "sample_df =
     \<lparr>columns = sample_columns,
      rows = [txn (Num 1000) ''US'' ''CUST001'' ''2024-01-01'' ''TXN001'' ''DEPOSIT'',
              txn (Num 500) ''EU'' ''CUST002'' ''2024-01-01'' ''TXN002'' ''WITHDRAWAL'',
              txn (Num 200) ''US'' ''CUST001'' ''2024-01-02'' ''TXN003'' ''DEPOSIT'']\<rparr>"

definition dirty_df :: dataframe where
  "dirty_df =
     \<lparr>columns = sample_columns,
      rows = [txn (Num 1000) ''US'' ''CUST001'' ''2024-01-01'' ''TXN001'' ''DEPOSIT'',
              txn Null ''EU'' ''CUST002'' ''2024-01-01'' ''TXN002'' ''WITHDRAWAL'',
              txn (Num (- 5)) ''US'' ''CUST001'' ''2024-01-02'' ''TXN003'' ''DEPOSIT'',
              txn (Num 200) ''US'' ''CUST003'' ''2024-01-02'' ''TXN004'' ''DEPOSIT'']\<rparr>"

text \<open>A bronze table that was not written by \<open>write_bronze_layer\<close>: it has a \<open>year\<close>
  column and neither \<open>date\<close> nor \<open>month\<close>.\<close>

definition year_only_df :: dataframe where
  "year_only_df = \<lparr>columns = [''year'', ''amount''],
                    rows = [[(''year'', Num 2024), (''amount'', Num 10)]]\<rparr>"

definition world_with :: "string \<Rightarrow> dataframe \<Rightarrow> world" where
  "world_with path df =
     \<lparr>tables = [path \<mapsto> [\<lparr>commit_ts = 1, partitioned_by = [], content = df\<rparr>]],
      stdout = [], zorder_calls = []\<rparr>"

section \<open>Basic facts about the engine operations\<close>

lemma unresolved_Nil_iff: "unresolved df cs = [] \<longleftrightarrow> set cs \<subseteq> set (columns df)"
  by (auto simp: unresolved_def filter_empty_conv)

lemma col_val_update: "col_val (AList.update k v r) c = (if c = k then v else col_val r c)"
  by (simp add: col_val_def update_conv')

section \<open>Group-by columns of the gold aggregation\<close>


text \<open>In that fallback case the engine cannot resolve the grouping column and the method
  raises before anything is written.\<close>

lemma group_cols_fallback_raises:
  assumes "''date'' \<notin> set (columns df)" "''region'' \<notin> set (columns df)"
    "''transaction_type'' \<notin> set (columns df)"
  shows "group_cols df = [''date'']" and "gold_aggregated E df = Inl (AnalysisException ''date'')"
  using assms
  by (simp_all add: group_cols_def gold_aggregated_def groupBy_count_def groupBy_agg_def
      unresolved_def agg_expr_def)

section \<open>Reading a bronze table that cannot be read\<close>

text \<open>
  C2. When the bronze location of a table cannot be loaded, \<open>read_bronze_layer\<close> returns
  normally, whatever the filters are: the result is the dataset with the single column
  \<open>id\<close> and no rows, and a warning is printed.
\<close>

theorem read_bronze_unreadable:
  assumes "load w (bronze_path base_path table_name) = Inl e"
  shows "read_bronze_layer E base_path table_name filters w =
           Inr (\<lparr>columns = [''id''], rows = []\<rparr>,
                print (''Warning: Could not read table '' @ table_name @ '': '' @ error_msg e) w)"
  using assms by (simp add: read_bronze_layer_def empty_id_df_def)

theorem read_bronze_unreadable_witness:
  "load empty_world (bronze_path ''./data/financelake'' ''missing'') =
     Inl (AnalysisException ''./data/financelake/bronze/missing is not a Delta table'')
   \<and> read_bronze_layer stub_engine ''./data/financelake'' ''missing'' (Some [(''region'', ''US'')]) empty_world =
     Inr (\<lparr>columns = [''id''], rows = []\<rparr>,
          \<lparr>tables = Map.empty,
           stdout = [''Warning: Could not read table missing: ./data/financelake/bronze/missing is not a Delta table''],
           zorder_calls = []\<rparr>)"
proof -
  have h: "load empty_world (bronze_path ''./data/financelake'' ''missing'') =
     Inl (AnalysisException ''./data/financelake/bronze/missing is not a Delta table'')"
    by (simp add: load_def history_def empty_world_def bronze_path_def)
  show ?thesis
    using h read_bronze_unreadable [OF h, of stub_engine "Some [(''region'', ''US'')]"]
    by (simp add: print_def empty_world_def)
qed

section \<open>Time travel\<close>

subsection \<open>Printing a version number and reading it back\<close>

lemma digit_val_digit_char: "d < 10 \<Longrightarrow> digit_val (digit_char d) = Some d"
  by (simp add: digit_val_def digit_char_def)

lemma digit_char_not_minus: "d < 10 \<Longrightarrow> digit_char d \<noteq> CHR ''-''"
proof
  assume d: "d < 10" and eq: "digit_char d = CHR ''-''"
  from digit_val_digit_char [OF d] eq have "digit_val (CHR ''-'') = Some d" by simp
  then show False by (simp add: digit_val_def)
qed

lemma parse_nat_acc_snoc:
  "d < 10 \<Longrightarrow> parse_nat_acc a (cs @ [digit_char d]) =
     map_option (\<lambda>m. 10 * m + d) (parse_nat_acc a cs)"
  by (induction cs arbitrary: a) (auto simp: digit_val_digit_char split: option.splits)

lemma str_nat_step: "\<not> n < 10 \<Longrightarrow> str_nat n = str_nat (n div 10) @ [digit_char (n mod 10)]"
  by (subst str_nat.simps) simp

lemma str_nat_not_Nil: "str_nat n \<noteq> []"
  by (subst str_nat.simps) simp

lemma parse_nat_acc_str_nat: "parse_nat_acc 0 (str_nat n) = Some n"
proof (induction n rule: str_nat.induct)
  case (1 n)
  show ?case
  proof (cases "n < 10")
    case True
    then show ?thesis by (simp add: digit_val_digit_char)
  next
    case False
    then have "parse_nat_acc 0 (str_nat (n div 10)) = Some (n div 10)" using "1" by simp
    with False show ?thesis
      by (simp add: str_nat_step parse_nat_acc_snoc del: str_nat.simps)
  qed
qed

lemma hd_str_nat_digit: "\<exists>d<10. hd (str_nat n) = digit_char d"
proof (induction n rule: str_nat.induct)
  case (1 n)
  show ?case
  proof (cases "n < 10")
    case True
    then show ?thesis by (subst str_nat.simps) auto
  next
    case False
    then have "hd (str_nat n) = hd (str_nat (n div 10))"
      by (simp add: str_nat_step str_nat_not_Nil del: str_nat.simps)
    with "1" False show ?thesis by simp
  qed
qed

lemma parse_nat_str_nat: "parse_nat (str_nat n) = Some n"
  by (simp add: parse_nat_def str_nat_not_Nil parse_nat_acc_str_nat del: str_nat.simps)

lemma parse_int_str_int: "parse_int (str_int i) = Some i"
proof (cases "i < 0")
  case True
  then show ?thesis
    by (simp add: str_int_def parse_int_def parse_nat_str_nat del: str_nat.simps)
next
  case False
  obtain c cs where s: "str_nat (nat i) = c # cs"
    using str_nat_not_Nil [of "nat i"] by (cases "str_nat (nat i)") auto
  obtain d where "d < 10" "hd (str_nat (nat i)) = digit_char d"
    using hd_str_nat_digit [of "nat i"] by blast
  with s have "c \<noteq> CHR ''-''" using digit_char_not_minus by auto
  with False s show ?thesis
    using parse_nat_str_nat [of "nat i"]
    by (simp add: str_int_def parse_int_def del: str_nat.simps)
qed

subsection \<open>Which read is performed\<close>

lemma time_travel_options_cases:
  "time_travel_options (Some v) timestamp = [(''versionAsOf'', str_int v)]"
  "time_travel_options None (Some ts) = [(''timestampAsOf'', ts)]"
  "time_travel_options None None = []"
  by (simp_all add: time_travel_options_def)

text \<open>
  C7. With a version and a timestamp both given, \<open>time_travel_query\<close> reads by version
  and the timestamp plays no part; with only one of them it reads by that one; with
  neither it is the plain read of the latest version.
\<close>

theorem time_travel_precedence:
  "time_travel_query E p (Some v) (Some ts) w = read_version w p v
   \<and> time_travel_query E p (Some v) None w = read_version w p v
   \<and> time_travel_query E p None (Some ts) w = read_timestamp E w p ts
   \<and> time_travel_query E p None None w = load w p"
  by (simp add: time_travel_query_def time_travel_options_def load_with_options_def
      parse_int_str_int)

lemma time_travel_example:
  "time_travel_query stub_engine ''p'' (Some 0) (Some ''no such time'') (world_with ''p'' sample_df)
     = Inr sample_df"
  by (simp add: time_travel_query_def time_travel_options_def load_with_options_def
      parse_int_str_int read_version_def history_def world_with_def)

section \<open>Partition columns handed to the storage\<close>


lemma gold_partition_subset:
  "set (w_partition (gold_writer g)) \<subseteq> set (columns g)"
  "w_data (gold_writer g) = g"
  by (auto simp: gold_writer_def gold_partition_cols_def df_write_def partitionBy_def Let_def)

text \<open>The silver write tests \<open>year\<close> and then names \<open>year\<close> and \<open>month\<close>: its list is
  within the dataset's columns when \<open>month\<close> is one of them.\<close>

lemma silver_writer_partition:
  "w_partition (silver_writer sdf) = silver_partition_cols sdf" "w_data (silver_writer sdf) = sdf"
  by (auto simp: silver_writer_def df_write_def partitionBy_def Let_def)

lemma silver_partition_subset:
  "''month'' \<in> set (columns sdf) \<Longrightarrow> set (w_partition (silver_writer sdf)) \<subseteq> set (columns sdf)"
  by (auto simp: silver_writer_partition silver_partition_cols_def)

text \<open>
  C3. The partition columns passed to a write are columns of the dataset written. For
  \<open>transform_to_silver\<close> this fails on a bronze table that has a \<open>year\<close> column and
  neither \<open>date\<close> nor \<open>month\<close>: nothing is derived, the list handed to the storage is
  \<open>[year, month]\<close>, \<open>month\<close> is not a column, and the storage refuses the write.
\<close>

theorem silver_partition_names_absent_column:
  "silver_transformed stub_engine year_only_df = Inr year_only_df
   \<and> w_partition (silver_writer year_only_df) = [''year'', ''month'']
   \<and> ''month'' \<notin> set (columns year_only_df)
   \<and> transform_to_silver stub_engine ''b'' ''t'' ''s'' (world_with ''b/bronze/t'' year_only_df)
       = Inl (AnalysisException ''month'')"
  by (simp add: silver_transformed_def silver_dates_def silver_amounts_def year_only_df_def
      df_filter_def unresolved_def col_val_def silver_writer_partition silver_partition_cols_def
      transform_to_silver_def read_bronze_layer_def load_def history_def world_with_def
      bronze_path_def silver_path_def save_def)

section \<open>Transforming an unreadable bronze table\<close>




section \<open>Equality filters: checked in read_bronze_layer, unchecked in query_with_optimization\<close>

lemma df_filter_resolved:
  "set (refs e) \<subseteq> set (columns df) \<Longrightarrow>
     df_filter E e df = Inr \<lparr>columns = columns df,
                            rows = filter (\<lambda>r. eval E r e = BoolV True) (rows df)\<rparr>"
proof -
  assume "set (refs e) \<subseteq> set (columns df)"
  then have "unresolved df (refs e) = []" by (simp add: unresolved_Nil_iff)
  then show ?thesis by (simp add: df_filter_def)
qed

lemma df_filter_columns: "df_filter E e df = Inr df' \<Longrightarrow> columns df' = columns df"
  by (auto simp: df_filter_def split: list.splits)







section \<open>The clustering run after the silver write\<close>

lemma withColumn_resolved:
  assumes "set (refs e) \<subseteq> set (columns df)"
  shows "withColumn E name e df =
           Inr \<lparr>columns = (if name \<in> set (columns df) then columns df else columns df @ [name]),
                rows = map (\<lambda>r. AList.update name (eval E r e) r) (rows df)\<rparr>"
proof -
  from assms have "unresolved df (refs e) = []" by (simp add: unresolved_Nil_iff)
  then show ?thesis by (simp add: withColumn_def)
qed

lemma read_bronze_no_filters:
  "\<exists>bdf w1. read_bronze_layer E base_path t None w = Inr (bdf, w1) \<and> tables w1 = tables w
      \<and> zorder_calls w1 = zorder_calls w"
  by (cases "load w (bronze_path base_path t)") (simp_all add: read_bronze_layer_def print_def)

lemma silver_dates_ok:
  "\<exists>d. silver_dates E bdf bdf = Inr d \<and> set (columns bdf) \<subseteq> set (columns d)"
  by (auto simp: silver_dates_def withColumn_resolved)

lemma silver_amounts_ok:
  "set (columns bdf) \<subseteq> set (columns d) \<Longrightarrow>
     \<exists>s. silver_amounts E bdf d = Inr s \<and> columns s = columns d"
  by (auto simp: silver_amounts_def df_filter_resolved)

lemma silver_transformed_ok: "\<exists>sdf. silver_transformed E bdf = Inr sdf"
proof -
  obtain d where d: "silver_dates E bdf bdf = Inr d" "set (columns bdf) \<subseteq> set (columns d)"
    using silver_dates_ok by blast
  then obtain s where "silver_amounts E bdf d = Inr s" using silver_amounts_ok by blast
  with d show ?thesis by (simp add: silver_transformed_def)
qed

lemma save_ok_tables:
  "save E wr path w = Inr w' \<Longrightarrow>
     tables w' path = Some (history w path @ [\<lparr>commit_ts = clock E, partitioned_by = w_partition wr,
                                               content = w_data wr\<rparr>])
     \<and> stdout w' = stdout w \<and> zorder_calls w' = zorder_calls w"
  by (auto simp: save_def split: list.splits)

lemma load_last: "history w path \<noteq> [] \<Longrightarrow> load w path = Inr (content (last (history w path)))"
  by (cases "history w path") (simp_all add: load_def)

lemma load_after_save:
  assumes "save E wr path w = Inr w'"
  shows "load w' path = Inr (w_data wr)"
proof -
  from save_ok_tables [OF assms]
  have "history w' path = history w path @ [\<lparr>commit_ts = clock E, partitioned_by = w_partition wr,
                                               content = w_data wr\<rparr>]"
    by (simp add: history_def)
  then show ?thesis by (simp add: load_last)
qed

lemma zorder_cols_spec:
  "zorder_cols sdf = filter (\<lambda>c. c \<in> set (columns sdf)) [''customer_id'', ''transaction_type'']"
  by (simp add: zorder_cols_def)

lemma silver_optimize_effect:
  assumes "history w2 path \<noteq> []"
  shows "tables (silver_optimize E sdf path w2) = tables w2"
    and "zorder_calls (silver_optimize E sdf path w2) =
           zorder_calls w2 @ (if zorder_cols sdf = [] then [] else [(path, zorder_cols sdf)])"
    and "stdout (silver_optimize E sdf path w2) =
           stdout w2 @ (if zorder_cols sdf = [] then []
                        else (case zorder_failure E path (zorder_cols sdf) of
                                None \<Rightarrow> []
                              | Some e \<Rightarrow> [''Warning: Z-ordering optimization failed: '' @ error_msg e]))"
  using assms
  by (auto simp: silver_optimize_def forPath_def executeZOrderBy_def print_def Let_def
      split: option.splits)

text \<open>
  C8. After the silver write \<open>transform_to_silver\<close> asks for a clustering run on those
  of \<open>customer_id\<close>, \<open>transaction_type\<close> that are columns of the silver dataset, and for
  none when neither is. Reading the bronze table and transforming it never fail; once the
  write has succeeded the method returns normally whatever the clustering run does: the
  table holds the silver dataset, and a failure of the run only adds a warning to the
  output.
\<close>

theorem silver_optimization_best_effort:
  "\<exists>bdf w1 sdf.
      read_bronze_layer E base_path bronze_table None w = Inr (bdf, w1)
    \<and> silver_transformed E bdf = Inr sdf
    \<and> zorder_cols sdf = filter (\<lambda>c. c \<in> set (columns sdf)) [''customer_id'', ''transaction_type'']
    \<and> (\<forall>w2. save E (silver_writer sdf) (silver_path base_path silver_table) w1 = Inr w2 \<longrightarrow>
         (\<exists>w3. transform_to_silver E base_path bronze_table silver_table w = Inr w3
            \<and> tables w3 = tables w2
            \<and> load w3 (silver_path base_path silver_table) = Inr sdf
            \<and> zorder_calls w3 = zorder_calls w @
                 (if zorder_cols sdf = [] then []
                  else [(silver_path base_path silver_table, zorder_cols sdf)])
            \<and> stdout w3 = stdout w1 @
                 (if zorder_cols sdf = [] then []
                  else (case zorder_failure E (silver_path base_path silver_table) (zorder_cols sdf) of
                          None \<Rightarrow> []
                        | Some e \<Rightarrow> [''Warning: Z-ordering optimization failed: '' @ error_msg e])) @
                 [''Data transformed to silver layer: '' @ silver_path base_path silver_table]))"
proof -
  obtain bdf w1 where r: "read_bronze_layer E base_path bronze_table None w = Inr (bdf, w1)"
    and z1: "zorder_calls w1 = zorder_calls w"
    using read_bronze_no_filters by blast
  obtain sdf where s: "silver_transformed E bdf = Inr sdf"
    using silver_transformed_ok by blast
  let ?path = "silver_path base_path silver_table"
  have "\<exists>w3. transform_to_silver E base_path bronze_table silver_table w = Inr w3
            \<and> tables w3 = tables w2
            \<and> load w3 ?path = Inr sdf
            \<and> zorder_calls w3 = zorder_calls w @
                 (if zorder_cols sdf = [] then [] else [(?path, zorder_cols sdf)])
            \<and> stdout w3 = stdout w1 @
                 (if zorder_cols sdf = [] then []
                  else (case zorder_failure E ?path (zorder_cols sdf) of
                          None \<Rightarrow> []
                        | Some e \<Rightarrow> [''Warning: Z-ordering optimization failed: '' @ error_msg e])) @
                 [''Data transformed to silver layer: '' @ ?path]"
    if sv: "save E (silver_writer sdf) ?path w1 = Inr w2" for w2
  proof -
    let ?w3 = "print (''Data transformed to silver layer: '' @ ?path) (silver_optimize E sdf ?path w2)"
    from save_ok_tables [OF sv] have t: "history w2 ?path \<noteq> []"
      and o: "stdout w2 = stdout w1" and z: "zorder_calls w2 = zorder_calls w1"
      by (simp_all add: history_def)
    have run: "transform_to_silver E base_path bronze_table silver_table w = Inr ?w3"
      by (simp add: transform_to_silver_def r s sv Let_def)
    have tb: "tables ?w3 = tables w2"
      by (simp add: print_def silver_optimize_effect(1) [OF t])
    have "load w2 ?path = Inr sdf"
      using load_after_save [OF sv] by (simp add: silver_writer_partition)
    then have ld: "load ?w3 ?path = Inr sdf"
      using tb by (simp add: load_def history_def)
    have zc: "zorder_calls ?w3 = zorder_calls w @
                 (if zorder_cols sdf = [] then [] else [(?path, zorder_cols sdf)])"
      by (simp add: print_def silver_optimize_effect(2) [OF t] z z1)
    have so: "stdout ?w3 = stdout w1 @
                 (if zorder_cols sdf = [] then []
                  else (case zorder_failure E ?path (zorder_cols sdf) of
                          None \<Rightarrow> []
                        | Some e \<Rightarrow> [''Warning: Z-ordering optimization failed: '' @ error_msg e])) @
                 [''Data transformed to silver layer: '' @ ?path]"
      by (simp add: print_def silver_optimize_effect(3) [OF t] o)
    from run tb ld zc so show ?thesis by blast
  qed
  with r s zorder_cols_spec [of sdf] show ?thesis by blast
qed


theorem silver_optimization_best_effort_witness:
  "\<exists>w3. transform_to_silver stub_engine ''b'' ''t'' ''s'' (world_with ''b/bronze/t'' sample_df) = Inr w3
      \<and> load w3 ''b/silver/s'' = Inr sample_df
      \<and> zorder_calls w3 = [(''b/silver/s'', [''customer_id'', ''transaction_type''])]
      \<and> stdout w3 = [''Warning: Z-ordering optimization failed: optimize is not available'',
                      ''Data transformed to silver layer: b/silver/s'']"
proof -
  let ?w = "world_with ''b/bronze/t'' sample_df"
  obtain bdf w1 sdf where
    r: "read_bronze_layer stub_engine ''b'' ''t'' None ?w = Inr (bdf, w1)"
    and s: "silver_transformed stub_engine bdf = Inr sdf"
    and a: "\<forall>w2. save stub_engine (silver_writer sdf) (silver_path ''b'' ''s'') w1 = Inr w2 \<longrightarrow>
         (\<exists>w3. transform_to_silver stub_engine ''b'' ''t'' ''s'' ?w = Inr w3
            \<and> tables w3 = tables w2
            \<and> load w3 (silver_path ''b'' ''s'') = Inr sdf
            \<and> zorder_calls w3 = zorder_calls ?w @
                 (if zorder_cols sdf = [] then []
                  else [(silver_path ''b'' ''s'', zorder_cols sdf)])
            \<and> stdout w3 = stdout w1 @
                 (if zorder_cols sdf = [] then []
                  else (case zorder_failure stub_engine (silver_path ''b'' ''s'') (zorder_cols sdf) of
                          None \<Rightarrow> []
                        | Some e \<Rightarrow> [''Warning: Z-ordering optimization failed: '' @ error_msg e])) @
                 [''Data transformed to silver layer: '' @ silver_path ''b'' ''s''])"
    using silver_optimization_best_effort [of stub_engine "''b''" "''t''" ?w "''s''"] by blast
  have "read_bronze_layer stub_engine ''b'' ''t'' None ?w = Inr (sample_df, ?w)"
    by (simp add: read_bronze_layer_def load_def history_def world_with_def bronze_path_def)
  with r have b: "bdf = sample_df" and w1: "w1 = ?w" by simp_all
  have "silver_transformed stub_engine sample_df = Inr sample_df"
    by (simp add: silver_transformed_def silver_dates_def silver_amounts_def df_filter_def
        unresolved_def sample_df_def sample_columns_def txn_def col_val_def)
  with s b have sd: "sdf = sample_df" by simp
  have z: "zorder_cols sample_df = [''customer_id'', ''transaction_type'']"
    by (simp add: zorder_cols_def sample_df_def sample_columns_def)
  have "\<exists>w2. save stub_engine (silver_writer sample_df) (silver_path ''b'' ''s'') ?w = Inr w2"
    by (simp add: save_def silver_writer_def silver_partition_cols_def df_write_def unresolved_def
        sample_df_def sample_columns_def)
  then obtain w2 where "save stub_engine (silver_writer sdf) (silver_path ''b'' ''s'') w1 = Inr w2"
    using sd w1 by blast
  with a obtain w3 where "transform_to_silver stub_engine ''b'' ''t'' ''s'' ?w = Inr w3"
    "load w3 (silver_path ''b'' ''s'') = Inr sdf"
    "zorder_calls w3 = zorder_calls ?w @
                 (if zorder_cols sdf = [] then []
                  else [(silver_path ''b'' ''s'', zorder_cols sdf)])"
    "stdout w3 = stdout w1 @
                 (if zorder_cols sdf = [] then []
                  else (case zorder_failure stub_engine (silver_path ''b'' ''s'') (zorder_cols sdf) of
                          None \<Rightarrow> []
                        | Some e \<Rightarrow> [''Warning: Z-ordering optimization failed: '' @ error_msg e])) @
                 [''Data transformed to silver layer: '' @ silver_path ''b'' ''s'']"
    by blast
  then show ?thesis
    by (simp add: sd w1 z silver_path_def world_with_def stub_engine_def)
qed

section \<open>Columns derived by write_bronze_layer\<close>









lemma write_bronze_fallback_example:
  "bronze_transformed stub_engine \<lparr>columns = [''transaction_id''], rows = [[(''transaction_id'', Str ''TXN009'')]]\<rparr>
     = Inr \<lparr>columns = [''transaction_id'', ''date'', ''region''],
            rows = [[(''transaction_id'', Str ''TXN009''), (''date'', DateV 19800),
                     (''region'', Str ''UNKNOWN'')]]\<rparr>"
  by (simp add: bronze_transformed_def add_date_def add_region_def withColumn_def unresolved_def
      stub_engine_def)

section \<open>The amount filter of transform_to_silver\<close>

lemma silver_dates_rows:
  "\<exists>d. silver_dates E bdf bdf = Inr d \<and> set (columns bdf) \<subseteq> set (columns d)
      \<and> rows d = map (\<lambda>r. if ''date'' \<in> set (columns bdf)
                            then AList.update ''day'' (dayofmonth_of E (col_val r ''date''))
                                   (AList.update ''month'' (month_of E (col_val r ''date''))
                                      (AList.update ''year'' (year_of E (col_val r ''date'')) r))
                            else r) (rows bdf)"
  by (auto simp: silver_dates_def withColumn_resolved col_val_update)

lemma silver_amounts_rows:
  assumes "set (columns bdf) \<subseteq> set (columns d)"
  shows "\<exists>s. silver_amounts E bdf d = Inr s \<and> columns s = columns d
      \<and> rows s = (if ''amount'' \<in> set (columns bdf)
                   then filter (\<lambda>r. col_val r ''amount'' \<noteq> Null
                                  \<and> eval_gt E (col_val r ''amount'') (Num 0) = BoolV True) (rows d)
                   else rows d)"
  using assms by (auto simp: silver_amounts_def df_filter_resolved)

lemma positive_amount_test:
  assumes "c = Null \<or> (\<exists>x. c = Num x)"
  shows "(c \<noteq> Null \<and> eval_gt E c (Num 0) = BoolV True)
           \<longleftrightarrow> \<not> (c = Null \<or> (\<exists>x. c = Num x \<and> x \<le> 0))"
  using assms by auto

lemma transform_to_silver_stores:
  assumes "transform_to_silver E base_path bronze_table silver_table w = Inr w'"
    and "load w (bronze_path base_path bronze_table) = Inr bdf"
    and "silver_transformed E bdf = Inr sdf"
  shows "load w' (silver_path base_path silver_table) = Inr sdf"
proof -
  have r: "read_bronze_layer E base_path bronze_table None w = Inr (bdf, w)"
    using assms(2) by (simp add: read_bronze_layer_def)
  let ?path = "silver_path base_path silver_table"
  from assms(1) obtain w2 where sv: "save E (silver_writer sdf) ?path w = Inr w2"
    and w': "w' = print (''Data transformed to silver layer: '' @ ?path) (silver_optimize E sdf ?path w2)"
    by (auto simp: transform_to_silver_def r assms(3) Let_def split: sum.splits)
  from save_ok_tables [OF sv] have t: "history w2 ?path \<noteq> []" by (simp add: history_def)
  have "load w2 ?path = Inr sdf"
    using load_after_save [OF sv] by (simp add: silver_writer_partition)
  then show ?thesis
    by (simp add: w' load_def history_def print_def silver_optimize_effect(1) [OF t])
qed

text \<open>
  C5. For a bronze dataset with a numeric \<open>amount\<close> column (every cell null or a number),
  the silver dataset has, in order, one row for each bronze row whose amount is neither
  null nor non-positive, and no other row; for a bronze dataset without an \<open>amount\<close>
  column it has one row for each bronze row. Each silver row agrees with its bronze row on
  every bronze column other than the derived \<open>year\<close>, \<open>month\<close>, \<open>day\<close>. This dataset
  is what the silver table holds whenever \<open>transform_to_silver\<close> returns.
\<close>

theorem silver_amount_filter:
  assumes "load w (bronze_path base_path bronze_table) = Inr bdf"
    and "\<forall>r\<in>set (rows bdf). col_val r ''amount'' = Null \<or> (\<exists>x. col_val r ''amount'' = Num x)"
  shows "\<exists>sdf. silver_transformed E bdf = Inr sdf
      \<and> (\<forall>w'. transform_to_silver E base_path bronze_table silver_table w = Inr w' \<longrightarrow>
              load w' (silver_path base_path silver_table) = Inr sdf)
      \<and> list_all2 (\<lambda>r r'. \<forall>c\<in>set (columns bdf).
                      c \<notin> {''year'', ''month'', ''day''} \<longrightarrow> col_val r' c = col_val r c)
          (if ''amount'' \<in> set (columns bdf)
           then filter (\<lambda>r. \<not> (col_val r ''amount'' = Null
                               \<or> (\<exists>x. col_val r ''amount'' = Num x \<and> x \<le> 0))) (rows bdf)
           else rows bdf)
          (rows sdf)"
proof -
  let ?g = "\<lambda>r. if ''date'' \<in> set (columns bdf)
                            then AList.update ''day'' (dayofmonth_of E (col_val r ''date''))
                                   (AList.update ''month'' (month_of E (col_val r ''date''))
                                      (AList.update ''year'' (year_of E (col_val r ''date'')) r))
                            else r"
  let ?keep = "\<lambda>r. \<not> (col_val r ''amount'' = Null \<or> (\<exists>x. col_val r ''amount'' = Num x \<and> x \<le> 0))"
  obtain d where d: "silver_dates E bdf bdf = Inr d" "set (columns bdf) \<subseteq> set (columns d)"
    and rd: "rows d = map ?g (rows bdf)"
    using silver_dates_rows [of E bdf] by blast
  obtain s where s: "silver_amounts E bdf d = Inr s"
    and rs: "rows s = (if ''amount'' \<in> set (columns bdf)
                   then filter (\<lambda>r. col_val r ''amount'' \<noteq> Null
                                  \<and> eval_gt E (col_val r ''amount'') (Num 0) = BoolV True) (rows d)
                   else rows d)"
    using silver_amounts_rows [OF d(2), of E] by blast
  have t: "silver_transformed E bdf = Inr s"
    by (simp add: silver_transformed_def d s)
  have amount_g: "col_val (?g r) ''amount'' = col_val r ''amount''" for r
    by (simp add: col_val_update)
  have "filter (\<lambda>r. col_val r ''amount'' \<noteq> Null
                  \<and> eval_gt E (col_val r ''amount'') (Num 0) = BoolV True) (map ?g (rows bdf))
        = map ?g (filter (\<lambda>r. col_val r ''amount'' \<noteq> Null
                  \<and> eval_gt E (col_val r ''amount'') (Num 0) = BoolV True) (rows bdf))"
    by (simp only: filter_map o_def amount_g)
  also have "filter (\<lambda>r. col_val r ''amount'' \<noteq> Null
                  \<and> eval_gt E (col_val r ''amount'') (Num 0) = BoolV True) (rows bdf)
        = filter ?keep (rows bdf)"
    by (rule filter_cong [OF refl]) (use assms(2) positive_amount_test in blast)
  finally have rows_s: "rows s = map ?g (if ''amount'' \<in> set (columns bdf)
                                        then filter ?keep (rows bdf) else rows bdf)"
    using rs rd by simp
  have rel: "list_all2 (\<lambda>r r'. \<forall>c\<in>set (columns bdf).
                      c \<notin> {''year'', ''month'', ''day''} \<longrightarrow> col_val r' c = col_val r c)
          xs (map ?g xs)" for xs
    by (simp add: list_all2_map2 list_all2_same col_val_update)
  have st: "\<forall>w'. transform_to_silver E base_path bronze_table silver_table w = Inr w' \<longrightarrow>
              load w' (silver_path base_path silver_table) = Inr s"
    using transform_to_silver_stores [OF _ assms(1) t] by blast
  have "list_all2 (\<lambda>r r'. \<forall>c\<in>set (columns bdf).
                      c \<notin> {''year'', ''month'', ''day''} \<longrightarrow> col_val r' c = col_val r c)
          (if ''amount'' \<in> set (columns bdf) then filter ?keep (rows bdf) else rows bdf)
          (rows s)"
    unfolding rows_s by (rule rel)
  with t st show ?thesis by blast
qed


lemma silver_transformed_columns_no_date:
  assumes "''date'' \<notin> set (columns bdf)" and "silver_transformed E bdf = Inr sdf"
  shows "columns sdf = columns bdf"
proof -
  from assms(1) have d: "silver_dates E bdf bdf = Inr bdf" by (simp add: silver_dates_def)
  obtain s where "silver_amounts E bdf bdf = Inr s" "columns s = columns bdf"
    using silver_amounts_ok [of bdf bdf E] by auto
  with d assms(2) show ?thesis by (simp add: silver_transformed_def)
qed

theorem silver_amount_filter_witness:
  "load (world_with ''b/bronze/t'' dirty_df) (bronze_path ''b'' ''t'') = Inr dirty_df
   \<and> ''amount'' \<in> set (columns dirty_df)
   \<and> map (\<lambda>r. col_val r ''amount'') (rows dirty_df) = [Num 1000, Null, Num (- 5), Num 200]
   \<and> (\<exists>w' sdf. transform_to_silver stub_engine ''b'' ''t'' ''s'' (world_with ''b/bronze/t'' dirty_df) = Inr w'
         \<and> load w' ''b/silver/s'' = Inr sdf
         \<and> map (\<lambda>r. col_val r ''transaction_id'') (rows sdf) = [Str ''TXN001'', Str ''TXN004'']
         \<and> map (\<lambda>r. col_val r ''amount'') (rows sdf) = [Num 1000, Num 200])"
proof -
  let ?w = "world_with ''b/bronze/t'' dirty_df"
  have l: "load ?w (bronze_path ''b'' ''t'') = Inr dirty_df"
    by (simp add: load_def history_def world_with_def bronze_path_def)
  have n: "\<forall>r\<in>set (rows dirty_df). col_val r ''amount'' = Null \<or> (\<exists>x. col_val r ''amount'' = Num x)"
    by (simp add: dirty_df_def txn_def col_val_def)
  have a: "''amount'' \<in> set (columns dirty_df)"
    by (simp add: dirty_df_def sample_columns_def)
  have m: "map (\<lambda>r. col_val r ''amount'') (rows dirty_df) = [Num 1000, Null, Num (- 5), Num 200]"
    by (simp add: dirty_df_def txn_def col_val_def)
  have k: "filter (\<lambda>r. \<not> (col_val r ''amount'' = Null
                               \<or> (\<exists>x. col_val r ''amount'' = Num x \<and> x \<le> 0))) (rows dirty_df)
      = [txn (Num 1000) ''US'' ''CUST001'' ''2024-01-01'' ''TXN001'' ''DEPOSIT'',
         txn (Num 200) ''US'' ''CUST003'' ''2024-01-02'' ''TXN004'' ''DEPOSIT'']"
    by (simp add: dirty_df_def txn_def col_val_def)
  obtain sdf where t: "silver_transformed stub_engine dirty_df = Inr sdf"
    and st: "\<forall>w'. transform_to_silver stub_engine ''b'' ''t'' ''s'' ?w = Inr w' \<longrightarrow>
              load w' (silver_path ''b'' ''s'') = Inr sdf"
    and r: "list_all2 (\<lambda>r r'. \<forall>c\<in>set (columns dirty_df).
                      c \<notin> {''year'', ''month'', ''day''} \<longrightarrow> col_val r' c = col_val r c)
          [txn (Num 1000) ''US'' ''CUST001'' ''2024-01-01'' ''TXN001'' ''DEPOSIT'',
           txn (Num 200) ''US'' ''CUST003'' ''2024-01-02'' ''TXN004'' ''DEPOSIT'']
          (rows sdf)"
    using silver_amount_filter [OF l n, of stub_engine "''s''"] a unfolding k by auto
  from r have ids: "map (\<lambda>r. col_val r ''transaction_id'') (rows sdf) = [Str ''TXN001'', Str ''TXN004'']"
    and ams: "map (\<lambda>r. col_val r ''amount'') (rows sdf) = [Num 1000, Num 200]"
    by (auto simp: list_all2_Cons1 dirty_df_def sample_columns_def txn_def col_val_def)
  have rb: "read_bronze_layer stub_engine ''b'' ''t'' None ?w = Inr (dirty_df, ?w)"
    using l by (simp add: read_bronze_layer_def)
  have "columns sdf = sample_columns"
    using silver_transformed_columns_no_date [OF _ t] by (simp add: dirty_df_def sample_columns_def)
  then have "unresolved (w_data (silver_writer sdf)) (w_partition (silver_writer sdf)) = []"
    by (simp add: silver_writer_partition silver_partition_cols_def unresolved_def sample_columns_def)
  then obtain w2 where "save stub_engine (silver_writer sdf) (silver_path ''b'' ''s'') ?w = Inr w2"
    by (simp add: save_def)
  then obtain w' where "transform_to_silver stub_engine ''b'' ''t'' ''s'' ?w = Inr w'"
    by (simp add: transform_to_silver_def rb t Let_def)
  with st ids ams l a m show ?thesis
    by (auto simp: silver_path_def)
qed

section \<open>The gold aggregation\<close>






















lemma gold_count_example:
  "gold_aggregated stub_engine
      \<lparr>columns = [''region''], rows = [[(''region'', Str ''US'')], [(''region'', Str ''EU'')],
                                       [(''region'', Str ''US'')]]\<rparr>
     = Inr \<lparr>columns = [''region'', ''count''],
            rows = [[(''region'', Str ''EU''), (''count'', Num 1)],
                    [(''region'', Str ''US''), (''count'', Num 2)]]\<rparr>"
  by (simp add: gold_aggregated_def agg_expr_def group_cols_def groupBy_count_def unresolved_def
      group_keys_def group_key_def group_members_def col_val_def)

end
